theory Spec2Isabelle
  imports Main
begin

section \<open>Values\<close>

text \<open>
  The helpers of \<^verbatim>\<open>utilities/response.py\<close> build Python dictionaries whose values are
  whatever the caller passes. The values are modelled by the JSON fragment of Python's
  objects: \<^verbatim>\<open>None\<close>, booleans, integers, strings, lists and dictionaries with string
  keys. A dictionary is an association list in insertion order, as Python keeps it.
  Values are immutable here: the helpers never mutate their arguments.
\<close>

datatype json =
    JNull
  | JBool bool
  | JInt int
  | JStr string
  | JList "json list"
  | JObj "(string \<times> json) list"

text \<open>
  A parameter with a default value is an \<open>option\<close>: \<open>None\<close> is an omitted argument,
  \<open>Some v\<close> a supplied one (\<open>Some JNull\<close> is Python's \<^verbatim>\<open>None\<close> passed explicitly).
\<close>

definition default_arg :: "'a \<Rightarrow> 'a option \<Rightarrow> 'a" where
  "default_arg d a = (case a of None \<Rightarrow> d | Some v \<Rightarrow> v)"

section \<open>Response helpers (\<^verbatim>\<open>utilities/response.py\<close>)\<close>

subsection \<open>The framework's status constants, exception and response\<close>

definition HTTP_204_NO_CONTENT :: nat where "HTTP_204_NO_CONTENT = 204"
definition HTTP_400_BAD_REQUEST :: nat where "HTTP_400_BAD_REQUEST = 400"
definition HTTP_401_UNAUTHORIZED :: nat where "HTTP_401_UNAUTHORIZED = 401"
definition HTTP_404_NOT_FOUND :: nat where "HTTP_404_NOT_FOUND = 404"
definition HTTP_409_CONFLICT :: nat where "HTTP_409_CONFLICT = 409"
definition HTTP_500_INTERNAL_SERVER_ERROR :: nat where "HTTP_500_INTERNAL_SERVER_ERROR = 500"

text \<open>\<^verbatim>\<open>HTTPException(status_code=code, detail=data)\<close>: the structured error.\<close>

record HTTPException =
  exc_status_code :: nat
  detail :: json

text \<open>
  \<^verbatim>\<open>Response(status_code=code)\<close>: a response object. Without content its body is
  the empty byte string.
\<close>

record Response =
  status_code :: nat
  body :: string

definition mk_Response :: "string option \<Rightarrow> nat \<Rightarrow> Response" where
  "mk_Response content code =
     \<lparr>status_code = code, body = (case content of None \<Rightarrow> [] | Some b \<Rightarrow> b)\<rparr>"

subsection \<open>Success helpers\<close>

definition response_ok ::
  "json option \<Rightarrow> json option \<Rightarrow> json option \<Rightarrow> json option \<Rightarrow> json" where
  "response_ok message success data paginator =
     JObj [(''message'', default_arg (JStr ''Ok'') message),
           (''success'', default_arg (JBool True) success),
           (''data'', default_arg (JObj []) data),
           (''paginator'', default_arg (JObj []) paginator)]"

definition response_created ::
  "json option \<Rightarrow> json option \<Rightarrow> json option \<Rightarrow> json option \<Rightarrow> json" where
  "response_created message success data paginator =
     JObj [(''message'', default_arg (JStr ''Resource created'') message),
           (''success'', default_arg (JBool True) success),
           (''data'', default_arg (JObj []) data),
           (''paginator'', default_arg (JObj []) paginator)]"

definition response_no_content :: Response where
  "response_no_content = (let code = HTTP_204_NO_CONTENT in mk_Response None code)"

subsection \<open>Error helpers\<close>

text \<open>
  Every error helper ends in \<^verbatim>\<open>raise HTTPException(...)\<close>, so its result is always
  \<open>Inl\<close> of the exception; \<open>Inr\<close> would be a normal return.
\<close>

definition response_conflict :: "json option \<Rightarrow> json option \<Rightarrow> HTTPException + unit" where
  "response_conflict message success =
     (let code = HTTP_409_CONFLICT;
          data = JObj [(''message'', default_arg (JStr ''Conflict'') message),
                       (''success'', JBool False)]
      in Inl \<lparr>exc_status_code = code, detail = data\<rparr>)"

definition response_bad_request ::
  "json option \<Rightarrow> json option \<Rightarrow> json option \<Rightarrow> json option \<Rightarrow> HTTPException + unit" where
  "response_bad_request message success data paginator =
     (let code = HTTP_400_BAD_REQUEST;
          data' = JObj [(''message'', default_arg (JStr ''Bad Request'') message),
                        (''success'', default_arg (JBool False) success),
                        (''data'', default_arg (JObj []) data),
                        (''paginator'', default_arg (JObj []) paginator)]
      in Inl \<lparr>exc_status_code = code, detail = data'\<rparr>)"

definition response_too_many_active_sessions :: "json option \<Rightarrow> HTTPException + unit" where
  "response_too_many_active_sessions message =
     (let code = HTTP_400_BAD_REQUEST;
          data = JObj [(''message'', default_arg (JStr ''Multiple Sessions are active'') message),
                       (''success'', JBool False)]
      in Inl \<lparr>exc_status_code = code, detail = data\<rparr>)"

definition response_unauthenticate ::
  "json option \<Rightarrow> json option \<Rightarrow> json option \<Rightarrow> json option \<Rightarrow> HTTPException + unit" where
  "response_unauthenticate message success data paginator =
     (let code = HTTP_401_UNAUTHORIZED;
          data' = JObj [(''message'', default_arg (JStr ''Unauthenticate'') message),
                        (''success'', default_arg (JBool False) success),
                        (''data'', default_arg (JObj []) data),
                        (''paginator'', default_arg (JObj []) paginator)]
      in Inl \<lparr>exc_status_code = code, detail = data'\<rparr>)"

definition response_not_found ::
  "json option \<Rightarrow> json option \<Rightarrow> json option \<Rightarrow> json option \<Rightarrow> HTTPException + unit" where
  "response_not_found message success data paginator =
     (let code = HTTP_404_NOT_FOUND;
          data' = JObj [(''message'', default_arg (JStr ''Not Found'') message),
                        (''success'', default_arg (JBool False) success),
                        (''data'', default_arg (JObj []) data),
                        (''paginator'', default_arg (JObj []) paginator)]
      in Inl \<lparr>exc_status_code = code, detail = data'\<rparr>)"

definition response_sesion_not_available :: "json option \<Rightarrow> HTTPException + unit" where
  "response_sesion_not_available message =
     (let code = HTTP_404_NOT_FOUND;
          data = JObj [(''message'', default_arg (JStr ''Session not available'') message),
                       (''success'', JBool False)]
      in Inl \<lparr>exc_status_code = code, detail = data\<rparr>)"

definition response_internal_server_error ::
  "json option \<Rightarrow> json option \<Rightarrow> json option \<Rightarrow> json option \<Rightarrow> HTTPException + unit" where
  "response_internal_server_error message success data paginator =
     (let code = HTTP_500_INTERNAL_SERVER_ERROR;
          data' = JObj [(''message'', default_arg (JStr ''Internal server error'') message),
                        (''success'', default_arg (JBool False) success),
                        (''data'', default_arg (JObj []) data),
                        (''paginator'', default_arg (JObj []) paginator)]
      in Inl \<lparr>exc_status_code = code, detail = data'\<rparr>)"

text \<open>Reading a dictionary: its keys in order, and the value under a key.\<close>

fun keys :: "json \<Rightarrow> string list" where
  "keys (JObj kvs) = map fst kvs"
| "keys _ = []"

fun dict_get :: "json \<Rightarrow> string \<Rightarrow> json option" where
  "dict_get (JObj kvs) k = map_of kvs k"
| "dict_get _ k = None"

section \<open>Resource container (\<^verbatim>\<open>resources/objects.py\<close>)\<close>

subsection \<open>Exceptions, log calls and external effects\<close>

text \<open>
  A raised Python exception: its class, as far as the \<^verbatim>\<open>except\<close> clauses of the
  program tell classes apart, and the text \<^verbatim>\<open>str(e)\<close> that an f-string prints.
  \<open>ConnectionFailure\<close> is \<^verbatim>\<open>pymongo.errors.ConnectionFailure\<close> or a subclass,
  \<open>OtherException\<close> any other subclass of \<^verbatim>\<open>Exception\<close>. Signals outside
  \<^verbatim>\<open>Exception\<close> (keyboard interrupt, interpreter exit) are not modelled, except for
  the cancellation delivered to the lifespan hook.
\<close>

datatype exception_class = ConnectionFailure | AttributeError | OtherException

datatype py_exception = Exc exception_class string

fun exc_class :: "py_exception \<Rightarrow> exception_class" where
  "exc_class (Exc c m) = c"

fun str :: "py_exception \<Rightarrow> string" where
  "str (Exc c m) = m"

text \<open>
  The fault of reading attribute \<open>a\<close> of \<^verbatim>\<open>None\<close>:
  \<^verbatim>\<open>'NoneType' object has no attribute 'a'\<close>.
\<close>

definition none_has_no_attribute :: "string \<Rightarrow> py_exception" where
  "none_has_no_attribute a =
     Exc AttributeError
       ([CHR 0x27] @ ''NoneType'' @ [CHR 0x27] @ '' object has no attribute '' @
        [CHR 0x27] @ a @ [CHR 0x27])"

datatype mongo_client = MongoClientHandle nat
datatype blocking_connection = ConnectionHandle nat
datatype blocking_channel = ChannelHandle nat

text \<open>\<^verbatim>\<open>client["hotel_users"]\<close>: a database handle knows its client.\<close>

record mongo_database =
  client :: mongo_client
  db_name :: string

record PlainCredentials =
  username :: string
  password :: string

record ConnectionParameters =
  host :: string
  port :: nat
  virtual_host :: string
  credentials :: PlainCredentials

text \<open>The two loggers of the program and the logger methods it calls.\<close>

datatype logger_name = Objects_logger | Main_logger

datatype log_method = info | error | warning | exception

text \<open>
  What the program does to the outside, in order: log calls and the closing of the
  two connections.
\<close>

datatype effect =
    Log logger_name log_method string
  | MongoClose mongo_client
  | BrokerClose blocking_connection

text \<open>
  The outside world at startup: what each connecting call of the two client libraries
  does, a handle returned (\<open>Inr\<close>) or an exception raised (\<open>Inl\<close>). Closing a handle
  that was obtained is taken to return normally.
\<close>

record environment =
  MongoClient :: "string \<Rightarrow> py_exception + mongo_client"
  BlockingConnection :: "ConnectionParameters \<Rightarrow> py_exception + blocking_connection"
  open_channel :: "blocking_connection \<Rightarrow> py_exception + blocking_channel"

text \<open>
  The constants of \<^verbatim>\<open>resources/broker_constants.py\<close>, a module that is imported
  but not part of the sources at hand: they are parameters.
\<close>

record broker_constants =
  BROKER_IP :: string
  BROKER_PORT :: nat
  BROKER_USERNAME :: string
  BROKER_PASSWORD :: string

subsection \<open>The container\<close>

record AppResources =
  database :: "mongo_database option"
  channel :: "blocking_channel option"
  connection :: "blocking_connection option"
  paho :: "unit option"
  celery_broker :: "unit option"
  celery_backend :: "unit option"

text \<open>\<^verbatim>\<open>cls()\<close>: every field has the default \<^verbatim>\<open>None\<close>.\<close>

definition new_AppResources :: AppResources where
  "new_AppResources =
     \<lparr>database = None, channel = None, connection = None,
      paho = None, celery_broker = None, celery_backend = None\<rparr>"

text \<open>
  The first \<^verbatim>\<open>try\<close> block of \<^verbatim>\<open>initialize\<close>. Its \<^verbatim>\<open>except\<close> clause names
  \<^verbatim>\<open>pymongo.errors.ConnectionFailure\<close>; an exception of another class leaves the
  block (and \<^verbatim>\<open>initialize\<close>) as it is.
\<close>

definition mongodb_setup ::
  "environment \<Rightarrow> AppResources \<Rightarrow> effect list \<times> (py_exception + AppResources)" where
  "mongodb_setup env resources =
     (case MongoClient env ''mongodb://localhost:27017/'' of
        Inr c \<Rightarrow>
          ([Log Objects_logger info ''MongoDB Connected!''],
           Inr (resources\<lparr>database := Some \<lparr>client = c, db_name = ''hotel_users''\<rparr>\<rparr>))
      | Inl e \<Rightarrow>
          if exc_class e = ConnectionFailure
          then ([Log Objects_logger error (''MongoDB Connection Failed: '' @ str e)],
                Inr resources)
          else ([], Inl e))"

text \<open>
  The second \<^verbatim>\<open>try\<close> block. Its \<^verbatim>\<open>except Exception\<close> catches every exception.
  The connection is stored before the channel is opened, so it stays stored when only
  opening the channel fails.
\<close>

definition rabbitmq_setup ::
  "environment \<Rightarrow> broker_constants \<Rightarrow> AppResources \<Rightarrow> effect list \<times> AppResources" where
  "rabbitmq_setup env constants resources =
     (let creds = \<lparr>username = BROKER_USERNAME constants, password = BROKER_PASSWORD constants\<rparr>;
          parameters = \<lparr>host = BROKER_IP constants, port = BROKER_PORT constants,
                        virtual_host = ''/'', credentials = creds\<rparr>
      in case BlockingConnection env parameters of
           Inl e \<Rightarrow>
             ([Log Objects_logger error (''RabbitMQ Connection Failed: '' @ str e)], resources)
         | Inr conn \<Rightarrow>
             (let resources1 = resources\<lparr>connection := Some conn\<rparr>
              in case open_channel env conn of
                   Inl e \<Rightarrow>
                     ([Log Objects_logger error (''RabbitMQ Connection Failed: '' @ str e)],
                      resources1)
                 | Inr ch \<Rightarrow>
                     ([Log Objects_logger info ''RabbitMQ Connected!''],
                      resources1\<lparr>channel := Some ch\<rparr>)))"

definition initialize ::
  "environment \<Rightarrow> broker_constants \<Rightarrow> effect list \<times> (py_exception + AppResources)" where
  "initialize env constants =
     (case mongodb_setup env new_AppResources of
        (log1, Inl e) \<Rightarrow> (log1, Inl e)
      | (log1, Inr resources) \<Rightarrow>
          (case rabbitmq_setup env constants resources of
             (log2, resources') \<Rightarrow> (log1 @ log2, Inr resources')))"

text \<open>
  \<^verbatim>\<open>destroy\<close>: \<^verbatim>\<open>self.database.client.close()\<close> reads an attribute of the database
  handle without a test, so a handle that is \<^verbatim>\<open>None\<close> raises there, before anything
  is logged or closed. The broker connection is closed under a test.
\<close>

definition destroy :: "AppResources \<Rightarrow> effect list \<times> (py_exception + unit)" where
  "destroy self =
     (case database self of
        None \<Rightarrow> ([], Inl (none_has_no_attribute ''client''))
      | Some db \<Rightarrow>
          ([MongoClose (client db), Log Objects_logger info ''MongoDB Connection Closed!''] @
           (case connection self of
              Some conn \<Rightarrow>
                [BrokerClose conn, Log Objects_logger info ''RabbitMQ Connection Closed!'']
            | None \<Rightarrow>
                [Log Objects_logger warning
                   ''RabbitMQ Connection object is None, skipping closing.'']),
           Inr ()))"

section \<open>Application bootstrap (\<^verbatim>\<open>main.py\<close>)\<close>

text \<open>
  The handler of \<^verbatim>\<open>GET /\<close>. It takes no argument; the module-level container
  \<^verbatim>\<open>objects.app_resources\<close>, which any handler could read, is made a parameter here:
  \<open>None\<close> while it is still the class it is initialised to, \<open>Some r\<close> once startup has
  stored an instance.
\<close>

definition root :: "AppResources option \<Rightarrow> json" where
  "root app_resources =
     JObj [(''App'', JStr ''Hotal management API''),
           (''version'', JStr ''1.0''),
           (''status'', JStr ''healthy'')]"

text \<open>
  The route is registered with \<^verbatim>\<open>app.get("/", include_in_schema=False)\<close>, without a
  status code: the framework answers with its default for a handler that returns, 200,
  and the returned value as the JSON body.
\<close>

record json_response =
  http_status :: nat
  content :: json

definition default_status_code :: nat where
  "default_status_code = 200"

definition get_root :: "AppResources option \<Rightarrow> json_response" where
  "get_root app_resources = \<lparr>http_status = default_status_code, content = root app_resources\<rparr>"

text \<open>
  The lifespan hook up to its \<^verbatim>\<open>yield\<close>: the startup phase. An exception of
  \<^verbatim>\<open>initialize\<close> is logged and raised again; otherwise the container is stored and
  the start is logged.
\<close>

definition lifespan_startup ::
  "environment \<Rightarrow> broker_constants \<Rightarrow> effect list \<times> (py_exception + AppResources)" where
  "lifespan_startup env constants =
     (case initialize env constants of
        (log, Inl exn) \<Rightarrow>
          (log @ [Log Main_logger exception
                    (''Error occurred while initializing the objects: '' @ str exn)],
           Inl exn)
      | (log, Inr resources) \<Rightarrow>
          (log @ [Log Main_logger info ''Hotal management Application started successfully.''],
           Inr resources))"

text \<open>
  What happens at the \<^verbatim>\<open>yield\<close>: the hook is resumed normally, or the framework
  throws the cancellation into it, or another exception.
\<close>

datatype yield_outcome = Resumed | Cancelled | Thrown py_exception

text \<open>
  The hook from its \<^verbatim>\<open>yield\<close> on. The \<^verbatim>\<open>finally\<close> block runs in every case; an
  exception of \<^verbatim>\<open>destroy\<close> leaves it before the last log call and replaces a pending
  one.
\<close>

definition lifespan_shutdown ::
  "AppResources \<Rightarrow> yield_outcome \<Rightarrow> effect list \<times> (py_exception + unit)" where
  "lifespan_shutdown resources y =
     (case destroy resources of
        (log, Inl e) \<Rightarrow> (log, Inl e)
      | (log, Inr u) \<Rightarrow>
          (log @ [Log Main_logger warning ''Hotal management Application shutting down.''],
           (case y of Thrown e \<Rightarrow> Inl e | _ \<Rightarrow> Inr ())))"

definition lifespan ::
  "environment \<Rightarrow> broker_constants \<Rightarrow> yield_outcome \<Rightarrow> effect list \<times> (py_exception + unit)" where
  "lifespan env constants y =
     (case lifespan_startup env constants of
        (log, Inl e) \<Rightarrow> (log, Inl e)
      | (log, Inr resources) \<Rightarrow>
          (case lifespan_shutdown resources y of
             (log', r) \<Rightarrow> (log @ log', r)))"

section \<open>JSON text\<close>

text \<open>
  The program leaves serialisation to the framework and to Python's \<^verbatim>\<open>json\<close>
  module. To state what becomes of an envelope on the wire, the JSON text format is
  written out here for the values of type \<open>json\<close>: objects, arrays, strings, integers,
  \<^verbatim>\<open>true\<close>, \<^verbatim>\<open>false\<close> and \<^verbatim>\<open>null\<close>. Of the string escapes, those for the quote,
  the backslash, newline, carriage return and tab are covered; numbers are integers.
\<close>

































section \<open>Observations\<close>

text \<open>The \<^verbatim>\<open>success\<close> entry of the payload an error helper raises.\<close>

definition raised_success :: "HTTPException + unit \<Rightarrow> json option" where
  "raised_success r = (case r of Inl e \<Rightarrow> dict_get (detail e) ''success'' | Inr u \<Rightarrow> None)"

text \<open>
  The connection parameters that the second \<^verbatim>\<open>try\<close> block of \<^verbatim>\<open>initialize\<close>
  builds from the broker constants.
\<close>

definition broker_parameters :: "broker_constants \<Rightarrow> ConnectionParameters" where
  "broker_parameters constants =
     \<lparr>host = BROKER_IP constants, port = BROKER_PORT constants, virtual_host = ''/'',
      credentials = \<lparr>username = BROKER_USERNAME constants, password = BROKER_PASSWORD constants\<rparr>\<rparr>"

section \<open>Properties of the response helpers\<close>

lemmas status_defs =
  HTTP_204_NO_CONTENT_def HTTP_400_BAD_REQUEST_def HTTP_401_UNAUTHORIZED_def
  HTTP_404_NOT_FOUND_def HTTP_409_CONFLICT_def HTTP_500_INTERNAL_SERVER_ERROR_def

lemmas error_helper_defs =
  response_conflict_def response_bad_request_def response_too_many_active_sessions_def
  response_unauthenticate_def response_not_found_def response_sesion_not_available_def
  response_internal_server_error_def

text \<open>
  Claim C8. \<^verbatim>\<open>response_ok\<close> and \<^verbatim>\<open>response_created\<close> return the envelope as a
  plain value: with all four arguments supplied, exactly the dictionary of the four
  entries \<^verbatim>\<open>message\<close>, \<^verbatim>\<open>success\<close>, \<^verbatim>\<open>data\<close>, \<^verbatim>\<open>paginator\<close> with those values;
  with every argument omitted, the message is \<^verbatim>\<open>"Ok"\<close> or \<^verbatim>\<open>"Resource created"\<close>,
  \<^verbatim>\<open>success\<close> is true and \<^verbatim>\<open>data\<close> and \<^verbatim>\<open>paginator\<close> are empty dictionaries.
  Argument by argument: the keys are always those four, each entry is the argument when
  it is supplied and the default when it is omitted, whatever the other arguments are.
\<close>

theorem response_ok_created_envelope:
  "response_ok (Some m) (Some s) (Some d) (Some p) =
     JObj [(''message'', m), (''success'', s), (''data'', d), (''paginator'', p)]
   \<and> response_created (Some m) (Some s) (Some d) (Some p) =
     JObj [(''message'', m), (''success'', s), (''data'', d), (''paginator'', p)]
   \<and> response_ok None None None None =
     JObj [(''message'', JStr ''Ok''), (''success'', JBool True),
           (''data'', JObj []), (''paginator'', JObj [])]
   \<and> response_created None None None None =
     JObj [(''message'', JStr ''Resource created''), (''success'', JBool True),
           (''data'', JObj []), (''paginator'', JObj [])]
   \<and> keys (response_ok message success data paginator) =
     [''message'', ''success'', ''data'', ''paginator'']
   \<and> keys (response_created message success data paginator) =
     [''message'', ''success'', ''data'', ''paginator'']
   \<and> dict_get (response_ok None success data paginator) ''message'' = Some (JStr ''Ok'')
   \<and> dict_get (response_created None success data paginator) ''message'' =
     Some (JStr ''Resource created'')
   \<and> dict_get (response_ok message None data paginator) ''success'' = Some (JBool True)
   \<and> dict_get (response_created message None data paginator) ''success'' = Some (JBool True)
   \<and> dict_get (response_ok message success None paginator) ''data'' = Some (JObj [])
   \<and> dict_get (response_created message success None paginator) ''data'' = Some (JObj [])
   \<and> dict_get (response_ok message success data None) ''paginator'' = Some (JObj [])
   \<and> dict_get (response_created message success data None) ''paginator'' = Some (JObj [])
   \<and> dict_get (response_ok (Some m) success data paginator) ''message'' = Some m
   \<and> dict_get (response_created (Some m) success data paginator) ''message'' = Some m
   \<and> dict_get (response_ok message (Some s) data paginator) ''success'' = Some s
   \<and> dict_get (response_created message (Some s) data paginator) ''success'' = Some s
   \<and> dict_get (response_ok message success (Some d) paginator) ''data'' = Some d
   \<and> dict_get (response_created message success (Some d) paginator) ''data'' = Some d
   \<and> dict_get (response_ok message success data (Some p)) ''paginator'' = Some p
   \<and> dict_get (response_created message success data (Some p)) ''paginator'' = Some p"
  by (simp add: response_ok_def response_created_def default_arg_def)

text \<open>
  Claim C10. \<^verbatim>\<open>response_no_content\<close> returns a response with status 204 and an
  empty body.
\<close>

theorem response_no_content_204_empty:
  "status_code response_no_content = 204 \<and> body response_no_content = []"
  by (simp add: response_no_content_def mk_Response_def HTTP_204_NO_CONTENT_def)

text \<open>
  Claim C1, as stated, fails for \<^verbatim>\<open>response_conflict\<close>: called with its defaults it
  raises an error whose payload does not have the four entries.
\<close>

theorem response_conflict_payload_counterexample:
  "\<not> (\<exists>e. response_conflict None None = Inl e
          \<and> keys (detail e) = [''message'', ''success'', ''data'', ''paginator''])"
  by (simp add: response_conflict_def default_arg_def)

text \<open>
  Claim C1, amended. Called with default arguments, \<^verbatim>\<open>response_bad_request\<close>,
  \<^verbatim>\<open>response_unauthenticate\<close>, \<^verbatim>\<open>response_not_found\<close> and
  \<^verbatim>\<open>response_internal_server_error\<close> raise an error with status 400, 401, 404 and 500
  whose payload is exactly the four entries \<^verbatim>\<open>message\<close>, \<^verbatim>\<open>success\<close> (false),
  \<^verbatim>\<open>data\<close> and \<^verbatim>\<open>paginator\<close> (both empty). \<^verbatim>\<open>response_conflict\<close> raises status 409
  with the smaller payload of \<^verbatim>\<open>message\<close> and \<^verbatim>\<open>success\<close> (false) only, as do the
  variants for too many active sessions (400) and for a session that is not available
  (404).
\<close>

theorem error_helpers_default_status_and_payload:
  "response_bad_request None None None None =
     Inl \<lparr>exc_status_code = 400,
          detail = JObj [(''message'', JStr ''Bad Request''), (''success'', JBool False),
                         (''data'', JObj []), (''paginator'', JObj [])]\<rparr>
   \<and> response_unauthenticate None None None None =
     Inl \<lparr>exc_status_code = 401,
          detail = JObj [(''message'', JStr ''Unauthenticate''), (''success'', JBool False),
                         (''data'', JObj []), (''paginator'', JObj [])]\<rparr>
   \<and> response_not_found None None None None =
     Inl \<lparr>exc_status_code = 404,
          detail = JObj [(''message'', JStr ''Not Found''), (''success'', JBool False),
                         (''data'', JObj []), (''paginator'', JObj [])]\<rparr>
   \<and> response_internal_server_error None None None None =
     Inl \<lparr>exc_status_code = 500,
          detail = JObj [(''message'', JStr ''Internal server error''), (''success'', JBool False),
                         (''data'', JObj []), (''paginator'', JObj [])]\<rparr>
   \<and> response_conflict None None =
     Inl \<lparr>exc_status_code = 409,
          detail = JObj [(''message'', JStr ''Conflict''), (''success'', JBool False)]\<rparr>
   \<and> response_too_many_active_sessions None =
     Inl \<lparr>exc_status_code = 400,
          detail = JObj [(''message'', JStr ''Multiple Sessions are active''),
                         (''success'', JBool False)]\<rparr>
   \<and> response_sesion_not_available None =
     Inl \<lparr>exc_status_code = 404,
          detail = JObj [(''message'', JStr ''Session not available''),
                         (''success'', JBool False)]\<rparr>"
  by (simp add: error_helper_defs status_defs default_arg_def)

text \<open>
  Claim C5, as stated, fails for \<^verbatim>\<open>response_bad_request\<close>: a caller who passes
  \<^verbatim>\<open>success=True\<close> gets a payload whose \<^verbatim>\<open>success\<close> entry is true.
\<close>

theorem response_bad_request_success_counterexample:
  "\<not> (\<exists>e. response_bad_request None (Some (JBool True)) None None = Inl e
          \<and> dict_get (detail e) ''success'' = Some (JBool False))"
  by (simp add: response_bad_request_def default_arg_def)

text \<open>
  Claim C5, amended. \<^verbatim>\<open>response_conflict\<close>, \<^verbatim>\<open>response_too_many_active_sessions\<close>
  and \<^verbatim>\<open>response_sesion_not_available\<close> fix the \<^verbatim>\<open>success\<close> entry of the payload to
  false, whatever the caller passes. For \<^verbatim>\<open>response_bad_request\<close>,
  \<^verbatim>\<open>response_unauthenticate\<close>, \<^verbatim>\<open>response_not_found\<close> and
  \<^verbatim>\<open>response_internal_server_error\<close> false is only the default: the entry is the
  caller's \<^verbatim>\<open>success\<close> argument when one is supplied.
\<close>

theorem error_helpers_success_flag:
  "raised_success (response_conflict m so) = Some (JBool False)
   \<and> raised_success (response_too_many_active_sessions m) = Some (JBool False)
   \<and> raised_success (response_sesion_not_available m) = Some (JBool False)
   \<and> raised_success (response_bad_request m None d p) = Some (JBool False)
   \<and> raised_success (response_unauthenticate m None d p) = Some (JBool False)
   \<and> raised_success (response_not_found m None d p) = Some (JBool False)
   \<and> raised_success (response_internal_server_error m None d p) = Some (JBool False)
   \<and> raised_success (response_bad_request m (Some s) d p) = Some s
   \<and> raised_success (response_unauthenticate m (Some s) d p) = Some s
   \<and> raised_success (response_not_found m (Some s) d p) = Some s
   \<and> raised_success (response_internal_server_error m (Some s) d p) = Some s"
  by (simp add: raised_success_def error_helper_defs default_arg_def)


section \<open>Properties of the resource container\<close>

text \<open>The three ways the database block of \<^verbatim>\<open>initialize\<close> can end.\<close>

lemma mongodb_setup_connection_failure:
  "MongoClient env ''mongodb://localhost:27017/'' = Inl (Exc ConnectionFailure msg) \<Longrightarrow>
   mongodb_setup env r =
     ([Log Objects_logger error (''MongoDB Connection Failed: '' @ msg)], Inr r)"
  by (simp add: mongodb_setup_def)

lemma mongodb_setup_other_exception:
  "MongoClient env ''mongodb://localhost:27017/'' = Inl e \<Longrightarrow> exc_class e \<noteq> ConnectionFailure \<Longrightarrow>
   mongodb_setup env r = ([], Inl e)"
  by (simp add: mongodb_setup_def)

lemma mongodb_setup_connected:
  "MongoClient env ''mongodb://localhost:27017/'' = Inr c \<Longrightarrow>
   mongodb_setup env r =
     ([Log Objects_logger info ''MongoDB Connected!''],
      Inr (r\<lparr>database := Some \<lparr>client = c, db_name = ''hotel_users''\<rparr>\<rparr>))"
  by (simp add: mongodb_setup_def)

text \<open>
  The three ways the broker block can end. It never touches the database handle, and it
  never raises.
\<close>

lemma rabbitmq_setup_database: "database (snd (rabbitmq_setup env constants r)) = database r"
  by (simp add: rabbitmq_setup_def Let_def split: sum.splits)

lemma rabbitmq_setup_connection_failure:
  "BlockingConnection env (broker_parameters constants) = Inl e \<Longrightarrow>
   rabbitmq_setup env constants r =
     ([Log Objects_logger error (''RabbitMQ Connection Failed: '' @ str e)], r)"
  by (simp add: rabbitmq_setup_def broker_parameters_def)

lemma rabbitmq_setup_channel_failure:
  "BlockingConnection env (broker_parameters constants) = Inr conn \<Longrightarrow>
   open_channel env conn = Inl e \<Longrightarrow>
   rabbitmq_setup env constants r =
     ([Log Objects_logger error (''RabbitMQ Connection Failed: '' @ str e)],
      r\<lparr>connection := Some conn\<rparr>)"
  by (simp add: rabbitmq_setup_def broker_parameters_def)

lemma rabbitmq_setup_connected:
  "BlockingConnection env (broker_parameters constants) = Inr conn \<Longrightarrow>
   open_channel env conn = Inr ch \<Longrightarrow>
   rabbitmq_setup env constants r =
     ([Log Objects_logger info ''RabbitMQ Connected!''],
      r\<lparr>connection := Some conn, channel := Some ch\<rparr>)"
  by (simp add: rabbitmq_setup_def broker_parameters_def)

lemma initialize_raises_iff:
  "(\<exists>log. initialize env constants = (log, Inl e)) =
   (MongoClient env ''mongodb://localhost:27017/'' = Inl e \<and> exc_class e \<noteq> ConnectionFailure)"
  by (auto simp: initialize_def mongodb_setup_def split: sum.splits prod.splits if_splits)

lemma destroy_database_set:
  "database self = Some db \<Longrightarrow> \<exists>log. destroy self = (log, Inr ())"
  by (simp add: destroy_def)

lemma destroy_without_broker_connection:
  "database self = Some db \<Longrightarrow> connection self = None \<Longrightarrow>
   destroy self =
     ([MongoClose (client db), Log Objects_logger info ''MongoDB Connection Closed!'',
       Log Objects_logger warning ''RabbitMQ Connection object is None, skipping closing.''],
      Inr ())"
  by (simp add: destroy_def)

text \<open>
  At shutdown nothing catches what \<^verbatim>\<open>destroy\<close> raises: it leaves the lifespan hook,
  before the last log call.
\<close>

lemma lifespan_shutdown_destroy_raises:
  "destroy resources = (log, Inl e) \<Longrightarrow> lifespan_shutdown resources y = (log, Inl e)"
  by (simp add: lifespan_shutdown_def)

lemma lifespan_shutdown_destroy_returns:
  "destroy resources = (log, Inr ()) \<Longrightarrow>
   lifespan_shutdown resources y =
     (log @ [Log Main_logger warning ''Hotal management Application shutting down.''],
      (case y of Thrown e \<Rightarrow> Inl e | _ \<Rightarrow> Inr ()))"
  by (simp add: lifespan_shutdown_def)



text \<open>
  Claim C3, at a container with no broker connection. When both connection attempts
  fail, \<^verbatim>\<open>initialize\<close> returns the fresh container, with neither a database handle nor a
  broker connection. \<^verbatim>\<open>destroy\<close> on it raises at the database handle, before the test of
  the broker connection: nothing is logged, the warning about the broker included. At
  shutdown the lifespan hook ends with that exception.
\<close>

theorem destroy_after_failed_startup:
  "initialize
     \<lparr>MongoClient = (\<lambda>uri. Inl (Exc ConnectionFailure ''connection refused'')),
      BlockingConnection = (\<lambda>parameters. Inl (Exc OtherException ''broker unreachable'')),
      open_channel = (\<lambda>conn. Inr (ChannelHandle 0))\<rparr> constants =
     ([Log Objects_logger error ''MongoDB Connection Failed: connection refused'',
       Log Objects_logger error ''RabbitMQ Connection Failed: broker unreachable''],
      Inr new_AppResources)
   \<and> connection new_AppResources = None
   \<and> destroy new_AppResources = ([], Inl (none_has_no_attribute ''client''))
   \<and> lifespan
     \<lparr>MongoClient = (\<lambda>uri. Inl (Exc ConnectionFailure ''connection refused'')),
      BlockingConnection = (\<lambda>parameters. Inl (Exc OtherException ''broker unreachable'')),
      open_channel = (\<lambda>conn. Inr (ChannelHandle 0))\<rparr> constants Cancelled =
     ([Log Objects_logger error ''MongoDB Connection Failed: connection refused'',
       Log Objects_logger error ''RabbitMQ Connection Failed: broker unreachable'',
       Log Main_logger info ''Hotal management Application started successfully.''],
      Inl (none_has_no_attribute ''client''))"
  by (simp add: lifespan_def lifespan_startup_def lifespan_shutdown_def initialize_def
      mongodb_setup_def rabbitmq_setup_def destroy_def new_AppResources_def)

text \<open>
  Claim C4. \<^verbatim>\<open>destroy\<close> raises, before any log call or close, for every container
  whose database handle is unset; it returns only for containers whose database handle
  is set; and the container that \<^verbatim>\<open>initialize\<close> returns after a database connection
  failure is one on which \<^verbatim>\<open>destroy\<close> raises.
\<close>

theorem destroy_unset_database_raises:
  "(database self = None \<longrightarrow> destroy self = ([], Inl (none_has_no_attribute ''client'')))
   \<and> ((\<exists>log. destroy self = (log, Inr ())) \<longrightarrow> database self \<noteq> None)
   \<and> (MongoClient env ''mongodb://localhost:27017/'' = Inl (Exc ConnectionFailure msg) \<longrightarrow>
        (\<exists>log r. initialize env constants = (log, Inr r)
                 \<and> destroy r = ([], Inl (none_has_no_attribute ''client''))))"
proof (intro conjI impI)
  assume "database self = None"
  then show "destroy self = ([], Inl (none_has_no_attribute ''client''))"
    by (simp add: destroy_def)
next
  assume "\<exists>log. destroy self = (log, Inr ())"
  then show "database self \<noteq> None"
    by (auto simp: destroy_def split: option.splits)
next
  assume a: "MongoClient env ''mongodb://localhost:27017/'' = Inl (Exc ConnectionFailure msg)"
  let ?b = "rabbitmq_setup env constants new_AppResources"
  have m: "mongodb_setup env new_AppResources =
             ([Log Objects_logger error (''MongoDB Connection Failed: '' @ msg)],
              Inr new_AppResources)"
    using a by (simp add: mongodb_setup_def)
  then have i: "initialize env constants =
      ([Log Objects_logger error (''MongoDB Connection Failed: '' @ msg)] @ fst ?b, Inr (snd ?b))"
    by (simp add: initialize_def split: prod.splits)
  have "database (snd ?b) = None"
    by (simp add: rabbitmq_setup_database new_AppResources_def)
  then have "destroy (snd ?b) = ([], Inl (none_has_no_attribute ''client''))"
    by (simp add: destroy_def)
  with i show "\<exists>log r. initialize env constants = (log, Inr r)
                 \<and> destroy r = ([], Inl (none_has_no_attribute ''client''))"
    by blast
qed

text \<open>
  The witness for C4: the fresh container, a container with a database handle, and a
  startup whose database connection fails while the broker connects.
\<close>

theorem destroy_unset_database_raises_witness:
  "database new_AppResources = None
   \<and> destroy new_AppResources = ([], Inl (none_has_no_attribute ''client''))
   \<and> destroy (new_AppResources\<lparr>database :=
                 Some \<lparr>client = MongoClientHandle 0, db_name = ''hotel_users''\<rparr>\<rparr>) =
       ([MongoClose (MongoClientHandle 0),
         Log Objects_logger info ''MongoDB Connection Closed!'',
         Log Objects_logger warning ''RabbitMQ Connection object is None, skipping closing.''],
        Inr ())
   \<and> database (new_AppResources\<lparr>database :=
                 Some \<lparr>client = MongoClientHandle 0, db_name = ''hotel_users''\<rparr>\<rparr>) \<noteq> None
   \<and> MongoClient
        \<lparr>MongoClient = (\<lambda>uri. Inl (Exc ConnectionFailure ''connection refused'')),
         BlockingConnection = (\<lambda>parameters. Inr (ConnectionHandle 1)),
         open_channel = (\<lambda>conn. Inr (ChannelHandle 2))\<rparr>
        ''mongodb://localhost:27017/'' = Inl (Exc ConnectionFailure ''connection refused'')
   \<and> (\<exists>log r.
        initialize
          \<lparr>MongoClient = (\<lambda>uri. Inl (Exc ConnectionFailure ''connection refused'')),
           BlockingConnection = (\<lambda>parameters. Inr (ConnectionHandle 1)),
           open_channel = (\<lambda>conn. Inr (ChannelHandle 2))\<rparr>
          \<lparr>BROKER_IP = ''localhost'', BROKER_PORT = 5672,
           BROKER_USERNAME = ''guest'', BROKER_PASSWORD = ''guest''\<rparr> = (log, Inr r)
        \<and> destroy r = ([], Inl (none_has_no_attribute ''client'')))"
proof -
  let ?env = "\<lparr>MongoClient = (\<lambda>uri. Inl (Exc ConnectionFailure ''connection refused'')),
         BlockingConnection = (\<lambda>parameters. Inr (ConnectionHandle 1)),
         open_channel = (\<lambda>conn. Inr (ChannelHandle 2))\<rparr>"
  let ?constants = "\<lparr>BROKER_IP = ''localhost'', BROKER_PORT = 5672,
           BROKER_USERNAME = ''guest'', BROKER_PASSWORD = ''guest''\<rparr>"
  let ?r = "new_AppResources\<lparr>database :=
              Some \<lparr>client = MongoClientHandle 0, db_name = ''hotel_users''\<rparr>\<rparr>"
  have unset: "database new_AppResources = None"
    by (simp add: new_AppResources_def)
  have returns: "destroy ?r =
       ([MongoClose (MongoClientHandle 0),
         Log Objects_logger info ''MongoDB Connection Closed!'',
         Log Objects_logger warning ''RabbitMQ Connection object is None, skipping closing.''],
        Inr ())"
    by (simp add: destroy_def new_AppResources_def)
  have fails: "MongoClient ?env ''mongodb://localhost:27017/'' =
                 Inl (Exc ConnectionFailure ''connection refused'')"
    by simp
  note a = destroy_unset_database_raises
             [of new_AppResources ?env "''connection refused''" ?constants]
  note b = destroy_unset_database_raises [of ?r ?env "''connection refused''" ?constants]
  from a unset have 1: "destroy new_AppResources = ([], Inl (none_has_no_attribute ''client''))"
    by blast
  from b returns have 2: "database ?r \<noteq> None"
    by blast
  from a fails have 3: "\<exists>log r. initialize ?env ?constants = (log, Inr r)
        \<and> destroy r = ([], Inl (none_has_no_attribute ''client''))"
    by blast
  from unset 1 returns 2 fails 3 show ?thesis
    by blast
qed

section \<open>Properties of the application bootstrap\<close>

text \<open>
  Claim C6. When \<^verbatim>\<open>initialize\<close> itself raises, the startup phase of the lifespan hook
  adds one \<^verbatim>\<open>logger.exception\<close> call with the text of the exception and raises the same
  exception; the hook as a whole ends there, without the start being logged and without
  \<^verbatim>\<open>destroy\<close>.
\<close>

theorem lifespan_startup_reraises:
  assumes "initialize env constants = (log, Inl exn)"
  shows "lifespan_startup env constants =
           (log @ [Log Main_logger exception
                     (''Error occurred while initializing the objects: '' @ str exn)],
            Inl exn)
         \<and> lifespan env constants y =
           (log @ [Log Main_logger exception
                     (''Error occurred while initializing the objects: '' @ str exn)],
            Inl exn)"
  using assms by (simp add: lifespan_startup_def lifespan_def)

text \<open>
  The witness for C6: the database client raises an exception that is not a connection
  failure, which the first \<^verbatim>\<open>try\<close> block does not catch.
\<close>

theorem lifespan_startup_reraises_witness:
  "initialize
     \<lparr>MongoClient = (\<lambda>uri. Inl (Exc OtherException ''invalid configuration'')),
      BlockingConnection = (\<lambda>parameters. Inr (ConnectionHandle 1)),
      open_channel = (\<lambda>conn. Inr (ChannelHandle 2))\<rparr>
     \<lparr>BROKER_IP = ''localhost'', BROKER_PORT = 5672,
      BROKER_USERNAME = ''guest'', BROKER_PASSWORD = ''guest''\<rparr> =
     ([], Inl (Exc OtherException ''invalid configuration''))
   \<and> lifespan_startup
     \<lparr>MongoClient = (\<lambda>uri. Inl (Exc OtherException ''invalid configuration'')),
      BlockingConnection = (\<lambda>parameters. Inr (ConnectionHandle 1)),
      open_channel = (\<lambda>conn. Inr (ChannelHandle 2))\<rparr>
     \<lparr>BROKER_IP = ''localhost'', BROKER_PORT = 5672,
      BROKER_USERNAME = ''guest'', BROKER_PASSWORD = ''guest''\<rparr> =
     ([Log Main_logger exception
         ''Error occurred while initializing the objects: invalid configuration''],
      Inl (Exc OtherException ''invalid configuration''))
   \<and> lifespan
     \<lparr>MongoClient = (\<lambda>uri. Inl (Exc OtherException ''invalid configuration'')),
      BlockingConnection = (\<lambda>parameters. Inr (ConnectionHandle 1)),
      open_channel = (\<lambda>conn. Inr (ChannelHandle 2))\<rparr>
     \<lparr>BROKER_IP = ''localhost'', BROKER_PORT = 5672,
      BROKER_USERNAME = ''guest'', BROKER_PASSWORD = ''guest''\<rparr> Resumed =
     ([Log Main_logger exception
         ''Error occurred while initializing the objects: invalid configuration''],
      Inl (Exc OtherException ''invalid configuration''))"
proof -
  let ?env = "\<lparr>MongoClient = (\<lambda>uri. Inl (Exc OtherException ''invalid configuration'')),
      BlockingConnection = (\<lambda>parameters. Inr (ConnectionHandle 1)),
      open_channel = (\<lambda>conn. Inr (ChannelHandle 2))\<rparr>"
  let ?constants = "\<lparr>BROKER_IP = ''localhost'', BROKER_PORT = 5672,
      BROKER_USERNAME = ''guest'', BROKER_PASSWORD = ''guest''\<rparr>"
  have raises: "initialize ?env ?constants = ([], Inl (Exc OtherException ''invalid configuration''))"
    by (simp add: initialize_def mongodb_setup_def)
  from raises lifespan_startup_reraises [OF raises, of Resumed] show ?thesis
    by simp
qed

text \<open>
  Claim C7. \<^verbatim>\<open>GET /\<close> answers with status 200 and the literal liveness body, whatever
  the state of the resource container.
\<close>

theorem get_root_liveness:
  "get_root app_resources =
     \<lparr>http_status = 200,
      content = JObj [(''App'', JStr ''Hotal management API''),
                      (''version'', JStr ''1.0''),
                      (''status'', JStr ''healthy'')]\<rparr>"
  by (simp add: get_root_def root_def default_status_code_def)

end
